theory Spec2Isabelle
  imports Main "HOL-Library.Word"
begin

unbundle bit_operations_syntax

section \<open>The link-layer module l2-154.c and the radio header rf2xx.h\<close>

text \<open>
  The development embeds \<^verbatim>\<open>src/libraries/L2-154/l2-154.c\<close> and the enumeration
  \<^verbatim>\<open>radio_tx_done_t\<close> of \<^verbatim>\<open>src/fich_Compl/rf2xx.h\<close>.

  The functions of the module that work on one \<^verbatim>\<open>l2net_154\<close> object through a pointer
  the caller guarantees (\<^verbatim>\<open>recv\<close>, \<^verbatim>\<open>send\<close>, \<^verbatim>\<open>maxpayload\<close>) take the object and
  return it updated. The functions that allocate, that go through the global broadcast
  address, or whose effect depends on two pointers naming the same object run on an explicit
  machine state with a store of objects; there a load or a store through the null pointer
  is the outcome \<open>Undefined\<close>, as C leaves it.
\<close>

subsection \<open>Types\<close>

text \<open>
  The header l2-154.h and the header of the external library are not among the sources;
  the types they declare are taken from the specification and from the way l2-154.c uses
  them.

  \<^verbatim>\<open>size_t\<close> is an unsigned integer of some width \<open>w\<close>: a \<open>'w word\<close>, whose
  subtraction wraps modulo \<open>2 ^ w\<close> and whose order is the unsigned one. An address is
  16 bits wide; so is a PAN identifier, and a channel is a byte.
\<close>

type_synonym uint8_t = "8 word"
type_synonym uint16_t = "16 word"
type_synonym addr2_t = "16 word"
type_synonym panid_t = "16 word"
type_synonym channel_t = "8 word"

text \<open>A pointer is null or the address of an object.\<close>

datatype ptr = NULL | Ptr nat

text \<open>
  Modelled from the spec: \<^verbatim>\<open>struct l2addr_154\<close> is declared in l2-154.h. It is "a single
  16-bit short address value", the field \<^verbatim>\<open>addr_\<close> that the module reads and writes. A name
  cannot end in an underscore here, so the fields \<^verbatim>\<open>addr_\<close>, \<^verbatim>\<open>myaddr_\<close>, \<^verbatim>\<open>mtu_\<close> and
  \<^verbatim>\<open>curframe_\<close> carry a prime.
\<close>

record l2addr_154 =
  addr_' :: addr2_t

text \<open>
  Modelled from the spec: the type of a received frame is declared in the header of the
  external library. Of the frame header that the specification lays out, \<^verbatim>\<open>recv\<close>,
  \<^verbatim>\<open>get_src\<close> and \<^verbatim>\<open>get_dst\<close> read these fields: the frame type, the frame-control
  field and the destination and source short addresses.
\<close>

record ZigReceivedFrame =
  frametype :: uint8_t
  fcf :: uint16_t
  dstaddr :: addr2_t
  srcaddr :: addr2_t

text \<open>
  Modelled from the spec: \<^verbatim>\<open>l2net_154\<close> is declared in l2-154.h. It "holds own short
  address, configured MTU, and a pointer to the current frame", a pointer which is null
  (\<open>None\<close>) or points to a frame in the library's buffer (\<open>Some\<close> of what is there).
  The type of the MTU is \<^verbatim>\<open>size_t\<close>; the functions below use the record at \<open>'w word\<close>.
\<close>

record 'size_t l2net_154 =
  myaddr_' :: addr2_t
  mtu_' :: 'size_t
  curframe_' :: "ZigReceivedFrame option"

text \<open>
  Modelled from the spec: the enumeration \<^verbatim>\<open>l2_recv_t\<close>, the result of \<^verbatim>\<open>recv\<close>, is
  declared in a header that is not among the sources. The specification and l2-154.c name
  three of its values: empty, wrong destination and ok. \<open>RECV_other\<close> stands for any
  further enumerator the header may declare.
\<close>

datatype l2_recv_t = RECV_EMPTY | RECV_WRONG_DEST | RECV_OK | RECV_other nat

text \<open>\<^verbatim>\<open>radio_tx_done_t\<close> of rf2xx.h, lines 83 to 89.\<close>

datatype radio_tx_done_t = TX_OK | TX_CCA_FAIL | TX_NO_ACK | TX_FAIL

text \<open>The integer a C compiler gives each enumerator: none has an initialiser, so they count from 0.\<close>

fun radio_tx_done_value :: "radio_tx_done_t \<Rightarrow> int" where
  "radio_tx_done_value TX_OK = 0"
| "radio_tx_done_value TX_CCA_FAIL = 1"
| "radio_tx_done_value TX_NO_ACK = 2"
| "radio_tx_done_value TX_FAIL = 3"

subsection \<open>The external library\<close>

text \<open>
  The functions of the external MAC library are not part of the repository. A call to one of
  them is recorded, in order, in the list of calls made so far; what \<^verbatim>\<open>get_received\<close> and
  \<^verbatim>\<open>sendto\<close> return is an input of the function that calls them.
\<close>

datatype 'size_t libcall =
    Skip_received
  | Get_received
  | Sendto addr2_t ptr 'size_t
  | SetAddr2 addr2_t
  | SetChannel channel_t
  | SetPanid panid_t
  | SetMsgbufsize int
  | Start

text \<open>
  The macros and constants of the library's header that \<^verbatim>\<open>recv\<close> uses on the frame-control
  field. The header is not among the sources, so they are parameters of \<^verbatim>\<open>recv\<close>.
  \<^verbatim>\<open>Z_GET_INTRA_PAN\<close> is used as a C condition: true when its value is not 0.
\<close>

record zigmsg_h =
  Z_FT_DATA :: uint8_t
  Z_ADDRMODE_ADDR2 :: uint16_t
  Z_GET_DST_ADDR_MODE :: "uint16_t \<Rightarrow> uint16_t"
  Z_GET_SRC_ADDR_MODE :: "uint16_t \<Rightarrow> uint16_t"
  Z_GET_INTRA_PAN :: "uint16_t \<Rightarrow> uint16_t"

text \<open>
  An instance to run the model on: the frame-control layout of IEEE 802.15.4 (frame type
  data is 1, short address mode is 2, intra-PAN is bit 6, the destination address mode is
  bits 10 and 11, the source address mode bits 14 and 15).
\<close>

definition ieee802154 :: zigmsg_h where
  "ieee802154 =
     \<lparr>Z_FT_DATA = 1, Z_ADDRMODE_ADDR2 = 2,
      Z_GET_DST_ADDR_MODE = (\<lambda>w. drop_bit 10 w AND 3),
      Z_GET_SRC_ADDR_MODE = (\<lambda>w. drop_bit 14 w AND 3),
      Z_GET_INTRA_PAN = (\<lambda>w. drop_bit 6 w AND 1)\<rparr>"

subsection \<open>Constants of l2-154.c\<close>

text \<open>
  Modelled from the spec: the macro \<^verbatim>\<open>CONST16 (lo, hi)\<close> is declared in a header that is
  not among the sources. An address is "a single 16-bit short address value" made of two
  bytes; the macro puts its first argument in the low byte and its second in the high byte.
\<close>

definition CONST16 :: "uint8_t \<Rightarrow> uint8_t \<Rightarrow> uint16_t" where
  "CONST16 lo hi = push_bit 8 (ucast hi) OR ucast lo"

text \<open>Line 5.\<close>

definition addr2_broadcast :: addr2_t where
  "addr2_broadcast = CONST16 0xff 0xff"

text \<open>Lines 22 and 23; both are expressions of type \<^verbatim>\<open>int\<close>.\<close>

definition I154_SIZE_HEADER :: int where
  "I154_SIZE_HEADER = 2 + 1 + 2 + 2 + 2"

definition I154_SIZE_FCS :: int where
  "I154_SIZE_FCS = 2"

subsection \<open>maxpayload, send and recv\<close>

text \<open>
  Lines 164 to 166. The \<^verbatim>\<open>int\<close> sum is converted to \<^verbatim>\<open>size_t\<close> and the subtraction is
  the unsigned one.
\<close>

definition maxpayload :: "'w::len word l2net_154 \<Rightarrow> 'w word" where
  "maxpayload l2 = mtu_' l2 - word_of_int (I154_SIZE_HEADER + I154_SIZE_FCS)"

text \<open>
  Lines 169 to 175. \<open>sendto_result\<close> is what \<^verbatim>\<open>sendto\<close> returns if it is called; the
  result is the value returned and the calls made so far.
\<close>

definition send ::
  "'w::len word l2net_154 \<Rightarrow> l2addr_154 \<Rightarrow> ptr \<Rightarrow> 'w word \<Rightarrow> bool \<Rightarrow> 'w word libcall list
    \<Rightarrow> bool \<times> 'w word libcall list" where
  "send l2 dest data len sendto_result lib =
     (let success = False in
      if len \<le> mtu_' l2 - word_of_int (I154_SIZE_HEADER + I154_SIZE_FCS)
      then (sendto_result, lib @ [Sendto (addr_' dest) data len])
      else (success, lib))"

text \<open>
  Lines 191 to 215. \<open>received\<close> is what \<^verbatim>\<open>get_received\<close> returns in this call. The result
  is the value returned, the \<^verbatim>\<open>l2net_154\<close> object after the call and the calls made so far.
\<close>

definition recv ::
  "zigmsg_h \<Rightarrow> ZigReceivedFrame option \<Rightarrow> 'w word l2net_154 \<Rightarrow> 'w word libcall list
    \<Rightarrow> l2_recv_t \<times> 'w word l2net_154 \<times> 'w word libcall list" where
  "recv z received l2 lib =
     (let lib1 = (if curframe_' l2 \<noteq> None then lib @ [Skip_received] else lib);
          lib2 = lib1 @ [Get_received];
          l2' = l2\<lparr>curframe_' := received\<rparr>;
          r = (case curframe_' l2' of
                 None \<Rightarrow> RECV_EMPTY
               | Some f \<Rightarrow>
                   if frametype f = Z_FT_DATA z
                      \<and> Z_GET_DST_ADDR_MODE z (fcf f) = Z_ADDRMODE_ADDR2 z
                      \<and> Z_GET_SRC_ADDR_MODE z (fcf f) = Z_ADDRMODE_ADDR2 z
                      \<and> Z_GET_INTRA_PAN z (fcf f) \<noteq> 0
                   then (if dstaddr f \<noteq> myaddr_' l2' \<and> dstaddr f \<noteq> addr2_broadcast
                         then RECV_WRONG_DEST
                         else RECV_OK)
                   else RECV_EMPTY)
      in (r, l2', lib2))"

text \<open>
  The three header checks in the words of the specification: the frame type is data, the
  address mode (of the destination and of the source address) is the 16-bit short one, and
  the intra-PAN bit is set.
\<close>

definition header_checks_pass :: "zigmsg_h \<Rightarrow> ZigReceivedFrame \<Rightarrow> bool" where
  "header_checks_pass z f \<longleftrightarrow>
     frametype f = Z_FT_DATA z
     \<and> (Z_GET_DST_ADDR_MODE z (fcf f) = Z_ADDRMODE_ADDR2 z
        \<and> Z_GET_SRC_ADDR_MODE z (fcf f) = Z_ADDRMODE_ADDR2 z)
     \<and> Z_GET_INTRA_PAN z (fcf f) \<noteq> 0"

subsection \<open>The machine state\<close>

text \<open>
  What l2-154.c reads and writes besides the objects passed to it: the text printed so far,
  the calls made to the external library so far, the \<^verbatim>\<open>l2addr_154\<close> and the
  \<^verbatim>\<open>l2net_154\<close> objects by address, and the two global pointers. Objects of the two types
  never overlap, so each type has its own store.
\<close>

record 'size_t machine =
  out :: "string list"
  calls :: "'size_t libcall list"
  addr_heap :: "nat \<Rightarrow> l2addr_154"
  net_heap :: "nat \<Rightarrow> 'size_t l2net_154"
  l2addr_154_broadcast :: ptr
  conmsg :: ptr

text \<open>
  A function returns a value and the machine state it leaves, or it reaches an operation
  that C leaves undefined, here always a load or a store through the null pointer:
  \<open>Undefined\<close>, with the state in which the operation is reached.
\<close>

datatype ('a, 's) outcome = Returns 'a 's | Undefined 's

fun then_do :: "('a, 's) outcome \<Rightarrow> ('a \<Rightarrow> 's \<Rightarrow> ('b, 's) outcome) \<Rightarrow> ('b, 's) outcome" where
  "then_do (Returns v s) k = k v s"
| "then_do (Undefined s) k = Undefined s"

definition printf :: "string \<Rightarrow> 's machine \<Rightarrow> 's machine" where
  "printf msg s = s\<lparr>out := out s @ [msg]\<rparr>"

definition libcall :: "'s libcall \<Rightarrow> 's machine \<Rightarrow> 's machine" where
  "libcall c s = s\<lparr>calls := calls s @ [c]\<rparr>"

text \<open>\<^verbatim>\<open>p->addr_\<close> read and written, \<^verbatim>\<open>p\<close> a pointer to an \<^verbatim>\<open>l2addr_154\<close>.\<close>

fun load_addr :: "ptr \<Rightarrow> 's machine \<Rightarrow> (addr2_t, 's machine) outcome" where
  "load_addr NULL s = Undefined s"
| "load_addr (Ptr n) s = Returns (addr_' (addr_heap s n)) s"

fun store_addr :: "ptr \<Rightarrow> addr2_t \<Rightarrow> 's machine \<Rightarrow> (unit, 's machine) outcome" where
  "store_addr NULL v s = Undefined s"
| "store_addr (Ptr n) v s =
     Returns () (s\<lparr>addr_heap := (addr_heap s)(n := (addr_heap s n)\<lparr>addr_' := v\<rparr>)\<rparr>)"

text \<open>The object \<^verbatim>\<open>*p\<close> read, and one of its fields written, \<^verbatim>\<open>p\<close> a pointer to an \<^verbatim>\<open>l2net_154\<close>.\<close>

fun load_net :: "ptr \<Rightarrow> 's machine \<Rightarrow> ('s l2net_154, 's machine) outcome" where
  "load_net NULL s = Undefined s"
| "load_net (Ptr n) s = Returns (net_heap s n) s"

fun store_net ::
  "ptr \<Rightarrow> ('s l2net_154 \<Rightarrow> 's l2net_154) \<Rightarrow> 's machine \<Rightarrow> (unit, 's machine) outcome" where
  "store_net NULL upd s = Undefined s"
| "store_net (Ptr n) upd s = Returns () (s\<lparr>net_heap := (net_heap s)(n := upd (net_heap s n))\<rparr>)"

text \<open>The message of lines 36, 88, 144, 149, 245 and 265.\<close>

definition alloc_failed :: string where
  "alloc_failed = ''Memory allocation failed'' @ [CHR 0x0A]"

subsection \<open>The C library on characters\<close>

text \<open>\<^verbatim>\<open>isdigit\<close>, \<^verbatim>\<open>isxdigit\<close> and \<^verbatim>\<open>tolower\<close> of the C locale, on the code of a character.\<close>

definition isdigit :: "char \<Rightarrow> bool" where
  "isdigit c \<longleftrightarrow> 48 \<le> (of_char c :: nat) \<and> (of_char c :: nat) \<le> 57"

definition isxdigit :: "char \<Rightarrow> bool" where
  "isxdigit c \<longleftrightarrow>
     isdigit c
     \<or> (97 \<le> (of_char c :: nat) \<and> (of_char c :: nat) \<le> 102)
     \<or> (65 \<le> (of_char c :: nat) \<and> (of_char c :: nat) \<le> 70)"

definition tolower :: "char \<Rightarrow> char" where
  "tolower c =
     (if 65 \<le> (of_char c :: nat) \<and> (of_char c :: nat) \<le> 90
      then char_of ((of_char c :: nat) + 32)
      else c)"

subsection \<open>Addresses\<close>

text \<open>
  Modelled from the spec: the macro \<^verbatim>\<open>I154_ADDRLEN\<close> is declared in a header that is not
  among the sources. An address is "a single 16-bit short address value": two bytes, which
  are the two that line 72 reads.
\<close>

definition I154_ADDRLEN :: nat where
  "I154_ADDRLEN = 2"

text \<open>
  Modelled from the spec: the macro \<^verbatim>\<open>I154_MTU\<close> is declared in a header that is not
  among the sources. The comment of lines 8 to 20 gives the frame 127 bytes.
\<close>

definition I154_MTU :: "'w::len word" where
  "I154_MTU = 127"

text \<open>
  The loop of lines 45 to 68. The string is the list of the characters at \<^verbatim>\<open>a\<close> before
  the terminating NUL; the loop also stops at a NUL inside the list. The result is what
  the loop leaves in \<^verbatim>\<open>i\<close>, \<^verbatim>\<open>b\<close> and \<^verbatim>\<open>buf\<close>. The inner loop of lines 63 and 64
  writes 0 to every index from 0 below \<^verbatim>\<open>I154_ADDRLEN\<close> and leaves \<^verbatim>\<open>i\<close> at
  \<^verbatim>\<open>I154_ADDRLEN\<close>.
\<close>

fun parse_loop :: "string \<Rightarrow> nat \<Rightarrow> uint8_t \<Rightarrow> uint8_t list \<Rightarrow> nat \<times> uint8_t \<times> uint8_t list" where
  "parse_loop [] i b buf = (i, b, buf)"
| "parse_loop (c # a) i b buf =
     (if c \<noteq> CHR 0x00 \<and> i < I154_ADDRLEN then
        if c = CHR '':'' then parse_loop a (i + 1) 0 (buf[i := b])
        else if isxdigit c then
          (let c' = tolower c;
               x = (if isdigit c' then of_char c' - of_char (CHR ''0'')
                    else of_char c' - of_char (CHR ''a'') + 10)
           in parse_loop a i (push_bit 4 b + x) buf)
        else (I154_ADDRLEN, b, fold (\<lambda>j buf. buf[j := 0]) [0..<I154_ADDRLEN] buf)
      else (i, b, buf))"

text \<open>
  Lines 37 to 72: the address that \<^verbatim>\<open>init_l2addr_154_char\<close> computes from the string.
  \<^verbatim>\<open>buf\<close> is not initialised: \<open>junk\<close> gives the bytes it holds at first.
\<close>

definition parse_addr :: "(nat \<Rightarrow> uint8_t) \<Rightarrow> string \<Rightarrow> addr2_t" where
  "parse_addr junk a =
     (case parse_loop a 0 0 (map junk [0..<I154_ADDRLEN]) of
        (i, b, buf) \<Rightarrow>
          (let buf' = (if i < I154_ADDRLEN then buf[i := b] else buf)
           in CONST16 (buf' ! 0) (buf' ! 1)))"

text \<open>
  Lines 32 to 74. \<open>m\<close> is what \<^verbatim>\<open>malloc\<close> returns in this call: null, or the address of
  a new object.
\<close>

definition init_l2addr_154_char ::
  "ptr \<Rightarrow> (nat \<Rightarrow> uint8_t) \<Rightarrow> string \<Rightarrow> 's machine \<Rightarrow> (ptr, 's machine) outcome" where
  "init_l2addr_154_char m junk a s =
     (let addr = m;
          s1 = (if addr = NULL then printf alloc_failed s else s)
      in then_do (store_addr addr (parse_addr junk a) s1) (\<lambda>_ s2. Returns addr s2))"

text \<open>Lines 77 to 79.\<close>

definition setBroasdcastAddr ::
  "ptr \<Rightarrow> (nat \<Rightarrow> uint8_t) \<Rightarrow> 's machine \<Rightarrow> (unit, 's machine) outcome" where
  "setBroasdcastAddr m junk s =
     then_do (init_l2addr_154_char m junk ''ff:ff'' s)
       (\<lambda>p s1. Returns () (s1\<lparr>l2addr_154_broadcast := p\<rparr>))"

text \<open>Lines 85 to 91.\<close>

definition init_l2addr_154_addr :: "ptr \<Rightarrow> ptr \<Rightarrow> 's machine \<Rightarrow> (ptr, 's machine) outcome" where
  "init_l2addr_154_addr m x s =
     (let addr = m;
          s1 = (if addr = NULL then printf alloc_failed s else s)
      in then_do (load_addr x s1) (\<lambda>v s2.
         then_do (store_addr addr v s2) (\<lambda>_ s3. Returns addr s3)))"

text \<open>Lines 93 to 95.\<close>

definition copyAddr :: "ptr \<Rightarrow> ptr \<Rightarrow> 's machine \<Rightarrow> (unit, 's machine) outcome" where
  "copyAddr x y s = then_do (load_addr y s) (\<lambda>v s1. store_addr x v s1)"

text \<open>Lines 98 to 101.\<close>

definition isEqualAddr :: "ptr \<Rightarrow> ptr \<Rightarrow> 's machine \<Rightarrow> (bool, 's machine) outcome" where
  "isEqualAddr x y s =
     (let oe = y
      in then_do (load_addr x s) (\<lambda>v s1.
         then_do (load_addr oe s1) (\<lambda>w s2. Returns (v = w) s2)))"

text \<open>Lines 227 to 229.\<close>

definition bcastaddr :: "'s machine \<Rightarrow> (ptr, 's machine) outcome" where
  "bcastaddr s = Returns (l2addr_154_broadcast s) s"

subsection \<open>startL2_154, get_src and get_dst\<close>

text \<open>
  Lines 141 to 162. \<open>m_l2\<close>, \<open>m_conmsg\<close> and \<open>m_bcast\<close> are what the three calls of
  \<^verbatim>\<open>malloc\<close> return: the one of line 142, the one of line 147 and the one that
  \<^verbatim>\<open>setBroasdcastAddr\<close> reaches through \<^verbatim>\<open>init_l2addr_154_char\<close>.
\<close>

definition startL2_154 ::
  "ptr \<Rightarrow> ptr \<Rightarrow> ptr \<Rightarrow> (nat \<Rightarrow> uint8_t) \<Rightarrow> ptr \<Rightarrow> channel_t \<Rightarrow> panid_t \<Rightarrow> 'w::len word machine
    \<Rightarrow> (ptr, 'w word machine) outcome" where
  "startL2_154 m_l2 m_conmsg m_bcast junk a chan panid s =
     (let l2 = m_l2;
          s1 = (if l2 = NULL then printf alloc_failed s else s)
      in then_do (load_addr a s1) (\<lambda>v s2.
         then_do (store_net l2 (\<lambda>n. n\<lparr>myaddr_' := v\<rparr>) s2) (\<lambda>_ s3.
         let s4 = s3\<lparr>conmsg := m_conmsg\<rparr>;
             s5 = (if conmsg s4 = NULL then printf alloc_failed s4 else s4)
         in then_do (load_net l2 s5) (\<lambda>n s6.
            let s7 = libcall (SetAddr2 (myaddr_' n)) s6;
                s8 = libcall (SetChannel chan) s7;
                s9 = libcall (SetPanid panid) s8;
                s10 = libcall (SetMsgbufsize 10) s9
            in then_do (setBroasdcastAddr m_bcast junk s10) (\<lambda>_ s11.
               then_do (store_net l2 (\<lambda>n. n\<lparr>mtu_' := I154_MTU\<rparr>) s11) (\<lambda>_ s12.
               then_do (store_net l2 (\<lambda>n. n\<lparr>curframe_' := None\<rparr>) s12) (\<lambda>_ s13.
               Returns l2 (libcall Start s13))))))))"

text \<open>
  Lines 241 to 248 and 261 to 268. \<open>m\<close> is what \<^verbatim>\<open>malloc\<close> returns. The current frame is
  read through \<^verbatim>\<open>l2->curframe_\<close>, which may be null.
\<close>

definition get_src :: "ptr \<Rightarrow> ptr \<Rightarrow> 's machine \<Rightarrow> (ptr, 's machine) outcome" where
  "get_src l2 m s =
     (let a = m;
          s1 = (if a = NULL then printf alloc_failed s else s)
      in then_do (load_net l2 s1) (\<lambda>n s2.
         case curframe_' n of
           None \<Rightarrow> Undefined s2
         | Some f \<Rightarrow> then_do (store_addr a (srcaddr f) s2) (\<lambda>_ s3. Returns a s3)))"

definition get_dst :: "ptr \<Rightarrow> ptr \<Rightarrow> 's machine \<Rightarrow> (ptr, 's machine) outcome" where
  "get_dst l2 m s =
     (let a = m;
          s1 = (if a = NULL then printf alloc_failed s else s)
      in then_do (load_net l2 s1) (\<lambda>n s2.
         case curframe_' n of
           None \<Rightarrow> Undefined s2
         | Some f \<Rightarrow> then_do (store_addr a (dstaddr f) s2) (\<lambda>_ s3. Returns a s3)))"

subsection \<open>A machine state to run the model on\<close>

text \<open>
  Nothing printed, no call made, both global pointers null; an address object at 4 that
  holds 0x1234, and an \<^verbatim>\<open>l2net_154\<close> object at 1 whose current frame is a data frame
  from 7 to 0x1234; every other object holds zeros.
\<close>

definition example_frame :: ZigReceivedFrame where
  "example_frame = \<lparr>frametype = 1, fcf = 0x8841, dstaddr = 0x1234, srcaddr = 7\<rparr>"

definition example_machine :: "32 word machine" where
  "example_machine =
     \<lparr>out = [], calls = [],
      addr_heap = (\<lambda>_. \<lparr>addr_' = 0\<rparr>)(4 := \<lparr>addr_' = 0x1234\<rparr>),
      net_heap = (\<lambda>_. \<lparr>myaddr_' = 0, mtu_' = 0, curframe_' = None\<rparr>)
        (1 := \<lparr>myaddr_' = 0x1234, mtu_' = 127, curframe_' = Some example_frame\<rparr>),
      l2addr_154_broadcast = NULL, conmsg = NULL\<rparr>"

text \<open>
  The state that \<^verbatim>\<open>startL2_154\<close> leaves when it is run in \<open>example_machine\<close> with the
  own address at 4, channel 11, PAN 0xCAFE, and \<^verbatim>\<open>malloc\<close> returning 1, 2 and 3.
\<close>

definition example_started :: "32 word machine" where
  "example_started =
     \<lparr>out = [],
      calls = [SetAddr2 0x1234, SetChannel 11, SetPanid 0xCAFE, SetMsgbufsize 10, Start],
      addr_heap = (addr_heap example_machine)(3 := \<lparr>addr_' = 0xffff\<rparr>),
      net_heap = (net_heap example_machine)
        (1 := \<lparr>myaddr_' = 0x1234, mtu_' = 127, curframe_' = None\<rparr>),
      l2addr_154_broadcast = Ptr 3, conmsg = Ptr 2\<rparr>"

section \<open>Properties\<close>

subsection \<open>Arithmetic of \<^verbatim>\<open>size_t\<close>\<close>

lemma take_bit_11: "4 \<le> n \<Longrightarrow> take_bit n (11::nat) = 11"
proof -
  assume a: "4 \<le> n"
  have "(2::nat) ^ 4 \<le> 2 ^ n" using a by (rule power_increasing) simp
  then have "(11::nat) < 2 ^ n" by simp
  then show ?thesis by (simp add: take_bit_nat_eq_self)
qed

lemma unat_sub_11_wraps:
  fixes m :: "'w::len word"
  assumes w: "4 \<le> LENGTH('w)" and m: "m < 11"
  shows "unat (m - 11) = 2 ^ LENGTH('w) - 11 + unat m"
proof -
  have u: "unat (11 :: 'w word) = 11" using w by (simp add: take_bit_11)
  have lt: "unat m < 11" using m u by (simp add: word_less_nat_alt)
  have "(2::nat) ^ 4 \<le> 2 ^ LENGTH('w)" using w by (rule power_increasing) simp
  then have big: "(11::nat) < 2 ^ LENGTH('w)" by simp
  have "unat (m - 11) = unat m + 2 ^ LENGTH('w) - 11"
    using lt u by (simp add: unat_sub_if' word_size)
  then show ?thesis using big by simp
qed

lemma le_sub_11_wraps:
  fixes m len :: "'w::len word"
  assumes w: "4 \<le> LENGTH('w)" and m: "m < 11"
  shows "len \<le> m - 11 \<longleftrightarrow> unat len \<le> 2 ^ LENGTH('w) - 11 + unat m"
  using unat_sub_11_wraps [OF w m] by (simp add: word_le_nat_alt)

subsection \<open>maxpayload\<close>

text \<open>
  C3. The header size is 2 + 1 + 2 + 2 + 2 = 9 bytes and the checksum 2 bytes, and
  \<^verbatim>\<open>maxpayload\<close> returns the MTU minus the one and minus the other, that is the MTU minus 11,
  in the arithmetic of \<^verbatim>\<open>size_t\<close>. Where \<^verbatim>\<open>size_t\<close> has at least 4 bits and the MTU is
  at least 11, nothing wraps and the result is the MTU minus 11 as a number.
\<close>

theorem maxpayload_is_mtu_minus_11:
  fixes l2 :: "'w::len word l2net_154"
  shows "I154_SIZE_HEADER = 9 \<and> I154_SIZE_FCS = 2
    \<and> maxpayload l2 = mtu_' l2 - 9 - 2
    \<and> maxpayload l2 = mtu_' l2 - 11
    \<and> (4 \<le> LENGTH('w) \<longrightarrow> 11 \<le> mtu_' l2 \<longrightarrow>
          unat (maxpayload l2) = unat (mtu_' l2) - 11)"
  by (auto simp add: maxpayload_def unat_sub take_bit_11 I154_SIZE_HEADER_def I154_SIZE_FCS_def)

theorem maxpayload_is_mtu_minus_11_witness:
  "4 \<le> LENGTH(32)
   \<and> (11 :: 32 word) \<le> mtu_' \<lparr>myaddr_' = 0, mtu_' = 127 :: 32 word, curframe_' = None\<rparr>
   \<and> maxpayload \<lparr>myaddr_' = 0, mtu_' = 127 :: 32 word, curframe_' = None\<rparr> = 116
   \<and> unat (maxpayload \<lparr>myaddr_' = 0, mtu_' = 127 :: 32 word, curframe_' = None\<rparr>) = 116"
  using maxpayload_is_mtu_minus_11
          [of "\<lparr>myaddr_' = 0, mtu_' = 127 :: 32 word, curframe_' = None\<rparr>"]
  by simp

subsection \<open>send\<close>

text \<open>
  C4, as the claim states it, fails: with an MTU below 11 \<^verbatim>\<open>send\<close> does not call
  \<^verbatim>\<open>sendto\<close> for every length. With MTU 0 and the largest length of a 32-bit
  \<^verbatim>\<open>size_t\<close>, \<^verbatim>\<open>send\<close> returns false and calls nothing, although \<^verbatim>\<open>sendto\<close> would
  have returned true.
\<close>

theorem send_small_mtu_counterexample:
  "mtu_' \<lparr>myaddr_' = 0, mtu_' = 0 :: 32 word, curframe_' = None\<rparr> < 11
   \<and> send \<lparr>myaddr_' = 0, mtu_' = 0 :: 32 word, curframe_' = None\<rparr> \<lparr>addr_' = 1\<rparr> (Ptr 9)
        0xFFFFFFFF True []
       = (False, [])"
  by (simp add: send_def I154_SIZE_HEADER_def I154_SIZE_FCS_def)

text \<open>
  C4, amended. \<^verbatim>\<open>send\<close> calls \<^verbatim>\<open>sendto\<close> once, with the destination's address, the
  data and the length, and returns its result exactly when the length is at most the MTU
  minus 11 in the arithmetic of \<^verbatim>\<open>size_t\<close>; otherwise it returns false and calls nothing.
  When the MTU is below 11 (and \<^verbatim>\<open>size_t\<close> has at least 4 bits) the subtraction wraps to
  \<open>2 ^ w - 11 + mtu\<close>, so \<^verbatim>\<open>sendto\<close> is called exactly for the lengths up to that value:
  for every length but the \<open>10 - mtu\<close> largest ones.
\<close>

theorem send_calls_sendto_iff:
  fixes l2 :: "'w::len word l2net_154"
  shows "send l2 dest data len sendto_result lib =
           (if len \<le> mtu_' l2 - 11
            then (sendto_result, lib @ [Sendto (addr_' dest) data len])
            else (False, lib))
    \<and> (4 \<le> LENGTH('w) \<longrightarrow> mtu_' l2 < 11 \<longrightarrow>
         (len \<le> mtu_' l2 - 11 \<longleftrightarrow> unat len \<le> 2 ^ LENGTH('w) - 11 + unat (mtu_' l2)))"
  by (simp add: send_def I154_SIZE_HEADER_def I154_SIZE_FCS_def le_sub_11_wraps)

theorem send_calls_sendto_iff_witness:
  "4 \<le> LENGTH(32)
   \<and> mtu_' \<lparr>myaddr_' = 0, mtu_' = 5 :: 32 word, curframe_' = None\<rparr> < 11
   \<and> send \<lparr>myaddr_' = 0, mtu_' = 5 :: 32 word, curframe_' = None\<rparr> \<lparr>addr_' = 1\<rparr> (Ptr 9)
        4000000000 True []
       = (True, [Sendto 1 (Ptr 9) 4000000000])
   \<and> send \<lparr>myaddr_' = 0, mtu_' = 5 :: 32 word, curframe_' = None\<rparr> \<lparr>addr_' = 1\<rparr> (Ptr 9)
        0xFFFFFFFB True []
       = (False, [])"
  using send_calls_sendto_iff
          [of "\<lparr>myaddr_' = 0, mtu_' = 5 :: 32 word, curframe_' = None\<rparr>" "\<lparr>addr_' = 1\<rparr>" "Ptr 9"
              "4000000000" True "[]"]
        send_calls_sendto_iff
          [of "\<lparr>myaddr_' = 0, mtu_' = 5 :: 32 word, curframe_' = None\<rparr>" "\<lparr>addr_' = 1\<rparr>" "Ptr 9"
              "0xFFFFFFFB" True "[]"]
  by simp

subsection \<open>recv\<close>

lemma recv_result:
  "fst (recv z received l2 lib) =
     (case received of
        None \<Rightarrow> RECV_EMPTY
      | Some f \<Rightarrow>
          if header_checks_pass z f
          then (if dstaddr f = myaddr_' l2 \<or> dstaddr f = addr2_broadcast then RECV_OK
                else RECV_WRONG_DEST)
          else RECV_EMPTY)"
  by (simp add: recv_def header_checks_pass_def Let_def split: option.split)

text \<open>
  C1. For a frame returned by \<^verbatim>\<open>get_received\<close>, \<^verbatim>\<open>recv\<close> returns something other than
  \<^verbatim>\<open>RECV_EMPTY\<close> exactly when the header checks pass; and then it returns \<^verbatim>\<open>RECV_OK\<close>
  when the destination address is the own address or the broadcast address, and
  \<^verbatim>\<open>RECV_WRONG_DEST\<close> otherwise.
\<close>

theorem recv_classifies_frame:
  "(fst (recv z (Some f) l2 lib) \<noteq> RECV_EMPTY \<longleftrightarrow> header_checks_pass z f)
   \<and> (header_checks_pass z f \<longrightarrow>
        fst (recv z (Some f) l2 lib) =
          (if dstaddr f = myaddr_' l2 \<or> dstaddr f = addr2_broadcast then RECV_OK
           else RECV_WRONG_DEST))"
  by (simp add: recv_result)

theorem recv_classifies_frame_witness:
  "header_checks_pass ieee802154 \<lparr>frametype = 1, fcf = 0x8841, dstaddr = 0x1234, srcaddr = 7\<rparr>
   \<and> fst (recv ieee802154
            (Some \<lparr>frametype = 1, fcf = 0x8841, dstaddr = 0x1234, srcaddr = 7\<rparr>)
            \<lparr>myaddr_' = 0x1234, mtu_' = 127 :: 32 word, curframe_' = None\<rparr> []) = RECV_OK
   \<and> fst (recv ieee802154
            (Some \<lparr>frametype = 1, fcf = 0x8841, dstaddr = 0x1234, srcaddr = 7\<rparr>)
            \<lparr>myaddr_' = 0x4321, mtu_' = 127 :: 32 word, curframe_' = None\<rparr> [])
       = RECV_WRONG_DEST"
  using recv_classifies_frame
          [of ieee802154 "\<lparr>frametype = 1, fcf = 0x8841, dstaddr = 0x1234, srcaddr = 7\<rparr>"
              "\<lparr>myaddr_' = 0x1234, mtu_' = 127 :: 32 word, curframe_' = None\<rparr>" "[]"]
        recv_classifies_frame
          [of ieee802154 "\<lparr>frametype = 1, fcf = 0x8841, dstaddr = 0x1234, srcaddr = 7\<rparr>"
              "\<lparr>myaddr_' = 0x4321, mtu_' = 127 :: 32 word, curframe_' = None\<rparr>" "[]"]
  by (simp add: header_checks_pass_def ieee802154_def addr2_broadcast_def CONST16_def)

text \<open>
  C2. Whatever \<^verbatim>\<open>get_received\<close> returns, \<^verbatim>\<open>recv\<close> returns \<^verbatim>\<open>RECV_EMPTY\<close>,
  \<^verbatim>\<open>RECV_OK\<close> or \<^verbatim>\<open>RECV_WRONG_DEST\<close> and no other value of \<^verbatim>\<open>l2_recv_t\<close>; it
  returns \<^verbatim>\<open>RECV_EMPTY\<close> when there is no frame and when the frame fails the header checks.
\<close>

theorem recv_three_results:
  "fst (recv z received l2 lib) \<in> {RECV_EMPTY, RECV_OK, RECV_WRONG_DEST}
   \<and> fst (recv z None l2 lib) = RECV_EMPTY
   \<and> (\<not> header_checks_pass z f \<longrightarrow> fst (recv z (Some f) l2 lib) = RECV_EMPTY)"
  by (simp add: recv_result split: option.split)

theorem recv_three_results_witness:
  "\<not> header_checks_pass ieee802154
        \<lparr>frametype = 1, fcf = 0xC841, dstaddr = 0x1234, srcaddr = 7\<rparr>
   \<and> fst (recv ieee802154
            (Some \<lparr>frametype = 1, fcf = 0xC841, dstaddr = 0x1234, srcaddr = 7\<rparr>)
            \<lparr>myaddr_' = 0x1234, mtu_' = 127 :: 32 word, curframe_' = None\<rparr> []) = RECV_EMPTY"
  using recv_three_results
          [of ieee802154 "Some \<lparr>frametype = 1, fcf = 0xC841, dstaddr = 0x1234, srcaddr = 7\<rparr>"
              "\<lparr>myaddr_' = 0x1234, mtu_' = 127 :: 32 word, curframe_' = None\<rparr>" "[]"
              "\<lparr>frametype = 1, fcf = 0xC841, dstaddr = 0x1234, srcaddr = 7\<rparr>"]
  by (simp add: header_checks_pass_def ieee802154_def)

text \<open>
  C6. A call of \<^verbatim>\<open>recv\<close> sets the current-frame pointer to what \<^verbatim>\<open>get_received\<close>
  returned in that call and leaves the own address and the MTU as they were. Of the library
  it calls \<^verbatim>\<open>skip_received\<close> first when a frame was held before, and only then
  \<^verbatim>\<open>get_received\<close>; when no frame was held it calls \<^verbatim>\<open>get_received\<close> alone.
\<close>

theorem recv_replaces_curframe:
  "recv z received l2 lib = (r, l2', lib') \<Longrightarrow>
     curframe_' l2' = received \<and> myaddr_' l2' = myaddr_' l2 \<and> mtu_' l2' = mtu_' l2
     \<and> lib' = lib @ (if curframe_' l2 \<noteq> None then [Skip_received] else []) @ [Get_received]"
  by (auto simp add: recv_def Let_def)

theorem recv_replaces_curframe_witness:
  "recv ieee802154 (Some \<lparr>frametype = 1, fcf = 0x8841, dstaddr = 0x1234, srcaddr = 7\<rparr>)
      \<lparr>myaddr_' = 0x1234, mtu_' = 127 :: 32 word,
       curframe_' = Some \<lparr>frametype = 3, fcf = 0, dstaddr = 1, srcaddr = 2\<rparr>\<rparr> [Start]
    = (RECV_OK,
       \<lparr>myaddr_' = 0x1234, mtu_' = 127,
        curframe_' = Some \<lparr>frametype = 1, fcf = 0x8841, dstaddr = 0x1234, srcaddr = 7\<rparr>\<rparr>,
       [Start, Skip_received, Get_received])
   \<and> curframe_' \<lparr>myaddr_' = 0x1234, mtu_' = 127 :: 32 word,
        curframe_' = Some \<lparr>frametype = 1, fcf = 0x8841, dstaddr = 0x1234, srcaddr = 7\<rparr>\<rparr>
       = Some \<lparr>frametype = 1, fcf = 0x8841, dstaddr = 0x1234, srcaddr = 7\<rparr>"
proof -
  have run:
    "recv ieee802154 (Some \<lparr>frametype = 1, fcf = 0x8841, dstaddr = 0x1234, srcaddr = 7\<rparr>)
      \<lparr>myaddr_' = 0x1234, mtu_' = 127 :: 32 word,
       curframe_' = Some \<lparr>frametype = 3, fcf = 0, dstaddr = 1, srcaddr = 2\<rparr>\<rparr> [Start]
    = (RECV_OK,
       \<lparr>myaddr_' = 0x1234, mtu_' = 127,
        curframe_' = Some \<lparr>frametype = 1, fcf = 0x8841, dstaddr = 0x1234, srcaddr = 7\<rparr>\<rparr>,
       [Start, Skip_received, Get_received])"
    by (simp add: recv_def ieee802154_def Let_def)
  from recv_replaces_curframe [OF run] run show ?thesis by simp
qed

subsection \<open>Addresses\<close>

text \<open>
  C5. For two addresses \<^verbatim>\<open>x\<close> and \<^verbatim>\<open>y\<close> (two pointers that are not null, to the same
  object or to two), \<^verbatim>\<open>isEqualAddr\<close> returns whether their 16-bit fields are equal and
  changes nothing; \<^verbatim>\<open>copyAddr\<close> makes the field of \<^verbatim>\<open>x\<close> what the field of \<^verbatim>\<open>y\<close>
  was and leaves the object \<^verbatim>\<open>y\<close> as it was; and after it \<^verbatim>\<open>isEqualAddr\<close> returns true.
\<close>

theorem copyAddr_isEqualAddr:
  "isEqualAddr (Ptr i) (Ptr j) s = Returns (addr_' (addr_heap s i) = addr_' (addr_heap s j)) s
   \<and> (case copyAddr (Ptr i) (Ptr j) s of
         Undefined _ \<Rightarrow> False
       | Returns _ s' \<Rightarrow>
           addr_' (addr_heap s' i) = addr_' (addr_heap s j)
           \<and> addr_heap s' j = addr_heap s j
           \<and> isEqualAddr (Ptr i) (Ptr j) s' = Returns True s')"
  by (simp add: isEqualAddr_def copyAddr_def)

theorem copyAddr_isEqualAddr_witness:
  "isEqualAddr (Ptr 5) (Ptr 4) example_machine = Returns False example_machine
   \<and> (case copyAddr (Ptr 5) (Ptr 4) example_machine of
         Undefined _ \<Rightarrow> False
       | Returns _ s' \<Rightarrow>
           addr_' (addr_heap s' 5) = 0x1234 \<and> addr_' (addr_heap s' 4) = 0x1234
           \<and> isEqualAddr (Ptr 5) (Ptr 4) s' = Returns True s')"
  using copyAddr_isEqualAddr [of 5 4 example_machine]
  by (simp add: copyAddr_def isEqualAddr_def example_machine_def)

lemma isxdigit_not_NUL: "isxdigit c \<Longrightarrow> c \<noteq> CHR 0x00"
  by (auto simp add: isxdigit_def isdigit_def)

lemma zero_buf:
  "length buf = I154_ADDRLEN \<Longrightarrow> fold (\<lambda>j buf. buf[j := 0]) [0..<I154_ADDRLEN] buf = [0, 0]"
  by (cases buf; cases "tl buf") (auto simp add: I154_ADDRLEN_def upt_rec)

text \<open>
  The loop on a string whose first character that is neither a colon nor a hexadecimal digit
  is reached: fewer than \<^verbatim>\<open>I154_ADDRLEN\<close> colons are counted before it.
\<close>

lemma parse_loop_invalid:
  assumes "\<forall>ch \<in> set pre. ch = CHR '':'' \<or> isxdigit ch"
      and "i + length (filter (\<lambda>ch. ch = CHR '':'') pre) < I154_ADDRLEN"
      and "c \<noteq> CHR 0x00" "c \<noteq> CHR '':''" "\<not> isxdigit c"
      and "length buf = I154_ADDRLEN"
  shows "\<exists>b'. parse_loop (pre @ c # rest) i b buf = (I154_ADDRLEN, b', [0, 0])"
  using assms
proof (induction pre arbitrary: i b buf)
  case Nil
  then show ?case by (simp add: zero_buf)
next
  case (Cons ch pre)
  show ?case
  proof (cases "ch = CHR '':''")
    case True
    with Cons.prems have "Suc i + length (filter (\<lambda>ch. ch = CHR '':'') pre) < I154_ADDRLEN"
      by simp
    from Cons.IH [OF _ this Cons.prems(3,4,5), of "buf[i := b]" 0] Cons.prems True
    show ?thesis by simp
  next
    case False
    with Cons.prems have x: "isxdigit ch" by simp
    then have nz: "ch \<noteq> CHR 0x00" by (rule isxdigit_not_NUL)
    from Cons.prems False have "i + length (filter (\<lambda>ch. ch = CHR '':'') pre) < I154_ADDRLEN"
      by simp
    from Cons.IH [OF _ this Cons.prems(3,4,5,6)] Cons.prems False x nz
    show ?thesis by (simp add: Let_def)
  qed
qed

text \<open>
  C8. Let the string be \<open>pre\<close>, then a character \<open>c\<close> that is neither a hexadecimal digit
  nor a colon (nor the NUL that ends a string), then anything; let \<open>pre\<close> hold only
  hexadecimal digits and colons, and fewer than \<^verbatim>\<open>I154_ADDRLEN\<close> colons, so that the loop
  reaches \<open>c\<close>. Then the address computed is 0, whatever digits \<open>pre\<close> holds and whatever
  \<^verbatim>\<open>buf\<close> held at first, and \<^verbatim>\<open>init_l2addr_154_char\<close> with a successful allocation
  returns the new object with the 16-bit value 0.
\<close>

theorem init_l2addr_154_char_invalid_char:
  assumes "\<forall>ch \<in> set pre. ch = CHR '':'' \<or> isxdigit ch"
      and "length (filter (\<lambda>ch. ch = CHR '':'') pre) < I154_ADDRLEN"
      and "c \<noteq> CHR 0x00" and "c \<noteq> CHR '':''" and "\<not> isxdigit c"
  shows "parse_addr junk (pre @ c # rest) = 0
    \<and> (case init_l2addr_154_char (Ptr p) junk (pre @ c # rest) s of
          Undefined _ \<Rightarrow> False
        | Returns r s' \<Rightarrow> r = Ptr p \<and> addr_' (addr_heap s' p) = 0)"
proof -
  have "length (map junk [0..<I154_ADDRLEN]) = I154_ADDRLEN" by simp
  from parse_loop_invalid [OF assms(1) _ assms(3,4,5) this, of 0 rest 0] assms(2)
  obtain b' where
    "parse_loop (pre @ c # rest) 0 0 (map junk [0..<I154_ADDRLEN]) = (I154_ADDRLEN, b', [0, 0])"
    by auto
  then have "parse_addr junk (pre @ c # rest) = 0"
    by (simp add: parse_addr_def CONST16_def)
  then show ?thesis by (simp add: init_l2addr_154_char_def)
qed

theorem init_l2addr_154_char_invalid_char_witness:
  "list_all (\<lambda>ch. ch = CHR '':'' \<or> isxdigit ch) ''12:3''
   \<and> length (filter (\<lambda>ch. ch = CHR '':'') ''12:3'') < I154_ADDRLEN
   \<and> CHR ''z'' \<noteq> CHR 0x00 \<and> CHR ''z'' \<noteq> CHR '':'' \<and> \<not> isxdigit (CHR ''z'')
   \<and> parse_addr (\<lambda>_. 7) ''12:3z:zz'' = 0
   \<and> (case init_l2addr_154_char (Ptr 5) (\<lambda>_. 7) ''12:3z:zz'' example_machine of
          Undefined _ \<Rightarrow> False
        | Returns r s' \<Rightarrow> r = Ptr 5 \<and> addr_' (addr_heap s' 5) = 0)"
proof -
  have h1: "\<forall>ch \<in> set ''12:3''. ch = CHR '':'' \<or> isxdigit ch"
    by (simp add: isxdigit_def isdigit_def)
  have h2: "length (filter (\<lambda>ch. ch = CHR '':'') ''12:3'') < I154_ADDRLEN"
    by (simp add: I154_ADDRLEN_def)
  have h3: "CHR ''z'' \<noteq> CHR 0x00" by simp
  have h4: "CHR ''z'' \<noteq> CHR '':''" by simp
  have h5: "\<not> isxdigit (CHR ''z'')" by (simp add: isxdigit_def isdigit_def)
  from init_l2addr_154_char_invalid_char
         [OF h1 h2 h3 h4 h5, of "\<lambda>_. 7" "'':zz''" 5 example_machine]
    h1 h2 h3 h4 h5
  show ?thesis by simp
qed

subsection \<open>The broadcast address\<close>

lemma parse_addr_ff_ff: "parse_addr junk ''ff:ff'' = 0xffff"
  by (simp add: parse_addr_def I154_ADDRLEN_def isxdigit_def isdigit_def tolower_def CONST16_def)

lemma addr2_broadcast_value: "addr2_broadcast = 0xffff"
  by (simp add: addr2_broadcast_def CONST16_def)

lemma startL2_154_NULL:
  "startL2_154 NULL m_conmsg m_bcast junk a chan panid t = Undefined (printf alloc_failed t)"
  by (cases a) (simp_all add: startL2_154_def)

lemma startL2_154_conmsg_NULL:
  "startL2_154 (Ptr l) NULL (Ptr b) junk (Ptr ai) chan panid t =
     Returns (Ptr l)
       (t\<lparr>out := out t @ [alloc_failed],
          calls := calls t @ [SetAddr2 (addr_' (addr_heap t ai)), SetChannel chan,
                              SetPanid panid, SetMsgbufsize 10, Start],
          addr_heap := (addr_heap t)(b := (addr_heap t b)\<lparr>addr_' := 0xffff\<rparr>),
          net_heap := (net_heap t)(l := (net_heap t l)
             \<lparr>myaddr_' := addr_' (addr_heap t ai), mtu_' := I154_MTU, curframe_' := None\<rparr>),
          l2addr_154_broadcast := Ptr b,
          conmsg := NULL\<rparr>)"
  by (simp add: startL2_154_def setBroasdcastAddr_def init_l2addr_154_char_def
      Let_def parse_addr_ff_ff libcall_def printf_def)

lemma startL2_154_bcast_NULL:
  "startL2_154 (Ptr l) m_conmsg NULL junk (Ptr ai) chan panid t =
     Undefined
       (t\<lparr>out := out t @ (if m_conmsg = NULL then [alloc_failed] else []) @ [alloc_failed],
          calls := calls t @ [SetAddr2 (addr_' (addr_heap t ai)), SetChannel chan,
                              SetPanid panid, SetMsgbufsize 10],
          net_heap := (net_heap t)(l := (net_heap t l)\<lparr>myaddr_' := addr_' (addr_heap t ai)\<rparr>),
          conmsg := m_conmsg\<rparr>)"
  by (simp add: startL2_154_def setBroasdcastAddr_def init_l2addr_154_char_def
      Let_def libcall_def printf_def)

text \<open>
  When \<^verbatim>\<open>startL2_154\<close> returns, it returns the object allocated first, the three pointers
  it wrote through were not null, and the object the global broadcast pointer points to
  holds 0xffff.
\<close>

lemma startL2_154_Returns:
  assumes "startL2_154 m_l2 m_conmsg m_bcast junk a chan panid t = Returns r t'"
  shows "r = m_l2 \<and> m_l2 \<noteq> NULL \<and> m_bcast \<noteq> NULL
    \<and> (\<exists>b. l2addr_154_broadcast t' = Ptr b \<and> addr_' (addr_heap t' b) = 0xffff)"
proof (cases m_l2)
  case NULL
  with assms show ?thesis by (simp add: startL2_154_NULL)
next
  case l: (Ptr l)
  show ?thesis
  proof (cases a)
    case NULL
    with assms show ?thesis by (simp add: startL2_154_def)
  next
    case a: (Ptr ai)
    show ?thesis
    proof (cases m_bcast)
      case NULL
      with assms l a show ?thesis by (simp add: startL2_154_bcast_NULL)
    next
      case (Ptr b)
      with assms l a show ?thesis
        by (auto simp add: startL2_154_def setBroasdcastAddr_def init_l2addr_154_char_def
            Let_def parse_addr_ff_ff libcall_def printf_def)
    qed
  qed
qed

lemma example_run:
  "startL2_154 (Ptr 1) (Ptr 2) (Ptr 3) (\<lambda>_. 0) (Ptr 4) 11 0xCAFE example_machine
     = Returns (Ptr 1) example_started"
  by (simp add: startL2_154_def setBroasdcastAddr_def init_l2addr_154_char_def
      Let_def parse_addr_ff_ff libcall_def printf_def example_machine_def example_started_def
      I154_MTU_def)

text \<open>
  C9. In the state that \<^verbatim>\<open>startL2_154\<close> leaves when it returns, \<^verbatim>\<open>bcastaddr\<close> returns a
  pointer that is not null, to an object that holds 0xffff, which is the value of
  \<^verbatim>\<open>addr2_broadcast\<close>. So for every frame and every address object that holds the frame's
  destination address, \<^verbatim>\<open>isEqualAddr\<close> of that object and the broadcast object returns
  what the comparison of the destination address with \<^verbatim>\<open>addr2_broadcast\<close> gives; and for a
  frame that passes the header checks and is not for the own address, it returns true exactly
  when \<^verbatim>\<open>recv\<close> returns \<^verbatim>\<open>RECV_OK\<close>.
\<close>

theorem broadcast_address_after_startL2_154:
  assumes "startL2_154 m_l2 m_conmsg m_bcast junk a chan panid s = Returns l2 s'"
  shows "case bcastaddr s' of
           Undefined _ \<Rightarrow> False
         | Returns NULL _ \<Rightarrow> False
         | Returns (Ptr b) _ \<Rightarrow>
             addr_' (addr_heap s' b) = 0xffff
             \<and> addr2_broadcast = 0xffff
             \<and> (\<forall>f x. addr_' (addr_heap s' x) = dstaddr f \<longrightarrow>
                   isEqualAddr (Ptr x) (Ptr b) s' = Returns (dstaddr f = addr2_broadcast) s')
             \<and> (\<forall>z f x net lib.
                   header_checks_pass z f \<and> dstaddr f \<noteq> myaddr_' net
                   \<and> addr_' (addr_heap s' x) = dstaddr f \<longrightarrow>
                   isEqualAddr (Ptr x) (Ptr b) s'
                     = Returns (fst (recv z (Some f) net lib) = RECV_OK) s')"
proof -
  from startL2_154_Returns [OF assms] obtain b
    where "l2addr_154_broadcast s' = Ptr b" and "addr_' (addr_heap s' b) = 0xffff"
    by blast
  then show ?thesis
    by (simp add: bcastaddr_def isEqualAddr_def addr2_broadcast_value recv_result)
qed

theorem broadcast_address_after_startL2_154_witness:
  "startL2_154 (Ptr 1) (Ptr 2) (Ptr 3) (\<lambda>_. 0) (Ptr 4) 11 0xCAFE example_machine
     = Returns (Ptr 1) example_started
   \<and> bcastaddr example_started = Returns (Ptr 3) example_started
   \<and> addr_' (addr_heap example_started 3) = 0xffff
   \<and> isEqualAddr (Ptr 4) (Ptr 3) example_started = Returns False example_started
   \<and> isEqualAddr (Ptr 3) (Ptr 3) example_started = Returns True example_started
   \<and> header_checks_pass ieee802154 (example_frame\<lparr>dstaddr := 0xffff\<rparr>)
   \<and> fst (recv ieee802154 (Some (example_frame\<lparr>dstaddr := 0xffff\<rparr>))
            \<lparr>myaddr_' = 0x1234, mtu_' = 127 :: 32 word, curframe_' = None\<rparr> []) = RECV_OK"
proof -
  have hdr: "header_checks_pass ieee802154 (example_frame\<lparr>dstaddr := 0xffff\<rparr>)"
    by (simp add: header_checks_pass_def ieee802154_def example_frame_def)
  have b: "l2addr_154_broadcast example_started = Ptr 3"
    "addr_' (addr_heap example_started 3) = 0xffff"
    "addr_' (addr_heap example_started 4) = 0x1234"
    by (simp_all add: example_started_def example_machine_def)
  from broadcast_address_after_startL2_154 [OF example_run] example_run hdr b show ?thesis
    by (simp add: bcastaddr_def isEqualAddr_def recv_result addr2_broadcast_value)
qed

subsection \<open>Allocation failure\<close>

text \<open>
  With \<^verbatim>\<open>malloc\<close> returning null, whatever the other inputs: the message is printed, and
  the next thing the function reaches is a store through the null pointer.
\<close>

lemma init_l2addr_154_char_NULL:
  "init_l2addr_154_char NULL junk str s = Undefined (printf alloc_failed s)"
  by (simp add: init_l2addr_154_char_def)

lemma init_l2addr_154_addr_NULL:
  "init_l2addr_154_addr NULL x s = Undefined (printf alloc_failed s)"
  by (cases x) (simp_all add: init_l2addr_154_addr_def)

lemma get_src_NULL: "get_src l2 NULL s = Undefined (printf alloc_failed s)"
  by (cases l2) (simp_all add: get_src_def Let_def split: option.split)

lemma get_dst_NULL: "get_dst l2 NULL s = Undefined (printf alloc_failed s)"
  by (cases l2) (simp_all add: get_dst_def Let_def split: option.split)

text \<open>
  C7 says that when an allocation fails the function only prints a message and goes on,
  and that no function aborts. The code does so for one allocation of the six. Run in
  \<open>example_machine\<close> with \<^verbatim>\<open>malloc\<close> returning null:
  \<^item> \<^verbatim>\<open>init_l2addr_154_char\<close>, \<^verbatim>\<open>init_l2addr_154_addr\<close>, \<^verbatim>\<open>get_src\<close>, \<^verbatim>\<open>get_dst\<close>
    and \<^verbatim>\<open>startL2_154\<close> (for the allocation of line 142) print the message, and the
    statement after it (lines 72, 89, 246, 266 and 145) stores through the null pointer:
    an operation that C leaves undefined, reached inside the function, with nothing but
    the message done. The function does not go on and returns nothing.
  \<^item> \<^verbatim>\<open>startL2_154\<close> whose allocation of the broadcast address fails ends in the same
    way, at line 72, after the calls made before it.
  \<^item> \<^verbatim>\<open>startL2_154\<close> whose allocation of \<^verbatim>\<open>conmsg\<close> fails (line 147) is the one that
    does what C7 says: the message is printed, \<^verbatim>\<open>conmsg\<close> is null, and the function runs
    to its end and returns the new object, as it does when nothing fails.
  \<^item> With an allocation that succeeds, \<^verbatim>\<open>init_l2addr_154_addr\<close> returns the new object and
    prints nothing.
\<close>

theorem allocation_failure_null_store:
  "init_l2addr_154_char NULL (\<lambda>_. 0) ''ff:ff'' example_machine
     = Undefined (example_machine\<lparr>out := [alloc_failed]\<rparr>)
   \<and> init_l2addr_154_addr NULL (Ptr 4) example_machine
     = Undefined (example_machine\<lparr>out := [alloc_failed]\<rparr>)
   \<and> get_src (Ptr 1) NULL example_machine = Undefined (example_machine\<lparr>out := [alloc_failed]\<rparr>)
   \<and> get_dst (Ptr 1) NULL example_machine = Undefined (example_machine\<lparr>out := [alloc_failed]\<rparr>)
   \<and> startL2_154 NULL (Ptr 2) (Ptr 3) (\<lambda>_. 0) (Ptr 4) 11 0xCAFE example_machine
     = Undefined (example_machine\<lparr>out := [alloc_failed]\<rparr>)
   \<and> startL2_154 (Ptr 1) (Ptr 2) NULL (\<lambda>_. 0) (Ptr 4) 11 0xCAFE example_machine
     = Undefined
         (example_machine
           \<lparr>out := [alloc_failed],
            calls := [SetAddr2 0x1234, SetChannel 11, SetPanid 0xCAFE, SetMsgbufsize 10],
            conmsg := Ptr 2\<rparr>)
   \<and> startL2_154 (Ptr 1) NULL (Ptr 3) (\<lambda>_. 0) (Ptr 4) 11 0xCAFE example_machine
     = Returns (Ptr 1) (example_started\<lparr>out := [alloc_failed], conmsg := NULL\<rparr>)
   \<and> startL2_154 (Ptr 1) (Ptr 2) (Ptr 3) (\<lambda>_. 0) (Ptr 4) 11 0xCAFE example_machine
     = Returns (Ptr 1) example_started
   \<and> init_l2addr_154_addr (Ptr 5) (Ptr 4) example_machine
     = Returns (Ptr 5)
         (example_machine\<lparr>addr_heap := (addr_heap example_machine)(5 := \<lparr>addr_' = 0x1234\<rparr>)\<rparr>)"
proof -
  have o: "printf alloc_failed example_machine = example_machine\<lparr>out := [alloc_failed]\<rparr>"
    by (simp add: printf_def example_machine_def)
  have bc: "startL2_154 (Ptr 1) (Ptr 2) NULL (\<lambda>_. 0) (Ptr 4) 11 0xCAFE example_machine
     = Undefined
         (example_machine
           \<lparr>out := [alloc_failed],
            calls := [SetAddr2 0x1234, SetChannel 11, SetPanid 0xCAFE, SetMsgbufsize 10],
            conmsg := Ptr 2\<rparr>)"
    by (simp add: startL2_154_bcast_NULL example_machine_def fun_upd_idem)
  have cm: "startL2_154 (Ptr 1) NULL (Ptr 3) (\<lambda>_. 0) (Ptr 4) 11 0xCAFE example_machine
     = Returns (Ptr 1) (example_started\<lparr>out := [alloc_failed], conmsg := NULL\<rparr>)"
    by (simp add: startL2_154_conmsg_NULL example_machine_def example_started_def I154_MTU_def)
  have ok: "init_l2addr_154_addr (Ptr 5) (Ptr 4) example_machine
     = Returns (Ptr 5)
         (example_machine\<lparr>addr_heap := (addr_heap example_machine)(5 := \<lparr>addr_' = 0x1234\<rparr>)\<rparr>)"
    by (simp add: init_l2addr_154_addr_def example_machine_def)
  from bc cm ok example_run show ?thesis
    by (simp add: init_l2addr_154_char_NULL init_l2addr_154_addr_NULL get_src_NULL get_dst_NULL
        startL2_154_NULL o)
qed

subsection \<open>The transmission outcomes of rf2xx.h\<close>

text \<open>
  C10. \<^verbatim>\<open>radio_tx_done_t\<close> has exactly the four values \<^verbatim>\<open>TX_OK\<close>, \<^verbatim>\<open>TX_CCA_FAIL\<close>,
  \<^verbatim>\<open>TX_NO_ACK\<close> and \<^verbatim>\<open>TX_FAIL\<close>: every value of the type is one of them, the four
  differ, and as C integers they are 0, 1, 2 and 3.
\<close>

theorem radio_tx_done_t_four_values:
  "(UNIV :: radio_tx_done_t set) = {TX_OK, TX_CCA_FAIL, TX_NO_ACK, TX_FAIL}
   \<and> distinct [TX_OK, TX_CCA_FAIL, TX_NO_ACK, TX_FAIL]
   \<and> card (UNIV :: radio_tx_done_t set) = 4
   \<and> map radio_tx_done_value [TX_OK, TX_CCA_FAIL, TX_NO_ACK, TX_FAIL] = [0, 1, 2, 3]"
proof -
  have u: "(UNIV :: radio_tx_done_t set) = {TX_OK, TX_CCA_FAIL, TX_NO_ACK, TX_FAIL}"
  proof
    show "UNIV \<subseteq> {TX_OK, TX_CCA_FAIL, TX_NO_ACK, TX_FAIL}"
    proof
      fix x :: radio_tx_done_t
      show "x \<in> {TX_OK, TX_CCA_FAIL, TX_NO_ACK, TX_FAIL}" by (cases x) simp_all
    qed
  qed simp
  have "card {TX_OK, TX_CCA_FAIL, TX_NO_ACK, TX_FAIL} = 4" by simp
  with u show ?thesis by simp
qed

end
